theory Spec2Isabelle
  imports Main
begin

section \<open>The cats API: data model\<close>

text \<open>
  The Go struct \<^verbatim>\<open>Cat\<close> of allCatsHandlers.go. Go strings are byte sequences, as
  \<^typ>\<open>string\<close> is here.
\<close>

record Cat =
  Name :: string
  ID :: string
  BirthDate :: string
  Color :: string

text \<open>
  A handler returns \<^verbatim>\<open>(int, any)\<close>. The dynamic values the handlers return are
  \<^verbatim>\<open>nil\<close>, a string, a \<^verbatim>\<open>Cat\<close> and a \<^verbatim>\<open>[]string\<close>.
\<close>

datatype payload =
  Nil_payload
  | String_payload string
  | Cat_payload Cat
  | Strings_payload "string list"

type_synonym response = "int \<times> payload"

abbreviation StatusOK :: int where "StatusOK \<equiv> 200"
abbreviation StatusCreated :: int where "StatusCreated \<equiv> 201"
abbreviation StatusNoContent :: int where "StatusNoContent \<equiv> 204"
abbreviation StatusBadRequest :: int where "StatusBadRequest \<equiv> 400"
abbreviation StatusNotFound :: int where "StatusNotFound \<equiv> 404"

text \<open>
  The package variable \<^verbatim>\<open>catsDatabase\<close>, a Go \<^verbatim>\<open>map[string]Cat\<close>, is threaded
  through the handlers as an explicit store. The composite literal of the seed leaves
  the field \<^verbatim>\<open>ID\<close> at its zero value.
\<close>

type_synonym store = "string \<rightharpoonup> Cat"

definition catsDatabase :: store where
  "catsDatabase =
     [''id1'' \<mapsto> \<lparr>Name = ''Toto'', ID = '''', BirthDate = ''2023-04-16'', Color = ''Grey''\<rparr>]"

section \<open>The JSON scanner of encoding/json\<close>

text \<open>
  The create handler reads its body with \<^verbatim>\<open>json.NewDecoder(req.Body).Decode\<close>. The
  standard library's scanner (scanner.go) is a state machine fed one byte at a time. Its
  field \<^verbatim>\<open>step\<close>, a function value in Go, is a value of the type \<open>state\<close> here, and
  \<open>scan_step\<close> applies the state function it names. The stack \<^verbatim>\<open>parseState\<close> has its
  top at the head of the list. The byte count of the scanner, used in error messages only,
  is left out, and so are the messages.
\<close>

datatype json_error = SyntaxError | UnmarshalTypeError | EOF | ErrUnexpectedEOF | Errorf

datatype opcode =
  scanContinue | scanBeginLiteral | scanBeginObject | scanObjectKey | scanObjectValue
  | scanEndObject | scanBeginArray | scanArrayValue | scanEndArray | scanSkipSpace
  | scanEnd | scanError

datatype parse = parseObjectKey | parseObjectValue | parseArrayValue

datatype state =
  StateBeginValueOrEmpty | StateBeginValue | StateBeginStringOrEmpty | StateBeginString
  | StateEndValue | StateEndTop | StateInString | StateInStringEsc | StateInStringEscU
  | StateInStringEscU1 | StateInStringEscU12 | StateInStringEscU123 | StateNeg | State1
  | State0 | StateDot | StateDot0 | StateE | StateESign | StateE0 | StateT | StateTr
  | StateTru | StateF | StateFa | StateFal | StateFals | StateN | StateNu | StateNul
  | StateError

record scanner =
  step :: state
  endTop :: bool
  parseState :: "parse list"
  err :: "json_error option"

definition maxNestingDepth :: nat where
  "maxNestingDepth = 10000"

definition byte :: "char \<Rightarrow> nat" where
  "byte c = of_char c"

definition between :: "char \<Rightarrow> char \<Rightarrow> char \<Rightarrow> bool" where
  "between lo hi c \<longleftrightarrow> byte lo \<le> byte c \<and> byte c \<le> byte hi"

definition quote :: char where "quote = CHR 0x22"
definition backslash :: char where "backslash = CHR 0x5C"

definition reset :: scanner where
  "reset = \<lparr>step = StateBeginValue, endTop = False, parseState = [], err = None\<rparr>"

definition scan_error :: "scanner \<Rightarrow> scanner \<times> opcode" where
  "scan_error s = (s\<lparr>step := StateError, err := Some SyntaxError\<rparr>, scanError)"

definition pushParseState :: "scanner \<Rightarrow> parse \<Rightarrow> opcode \<Rightarrow> scanner \<times> opcode" where
  "pushParseState s newParseState successState =
     (let s' = s\<lparr>parseState := newParseState # parseState s\<rparr>
      in if length (parseState s') \<le> maxNestingDepth then (s', successState)
         else scan_error s')"

definition popParseState :: "scanner \<Rightarrow> scanner" where
  "popParseState s =
     (let s' = s\<lparr>parseState := tl (parseState s)\<rparr>
      in if parseState s' = [] then s'\<lparr>step := StateEndTop, endTop := True\<rparr>
         else s'\<lparr>step := StateEndValue\<rparr>)"

definition isSpace :: "char \<Rightarrow> bool" where
  "isSpace c \<longleftrightarrow> c = CHR '' '' \<or> c = CHR 0x09 \<or> c = CHR 0x0D \<or> c = CHR 0x0A"

definition isHex :: "char \<Rightarrow> bool" where
  "isHex c \<longleftrightarrow> between CHR ''0'' CHR ''9'' c \<or> between CHR ''a'' CHR ''f'' c
     \<or> between CHR ''A'' CHR ''F'' c"

definition stateEndTop :: "scanner \<Rightarrow> char \<Rightarrow> scanner \<times> opcode" where
  "stateEndTop s c = (if \<not> isSpace c then (fst (scan_error s), scanEnd) else (s, scanEnd))"

definition stateEndValue :: "scanner \<Rightarrow> char \<Rightarrow> scanner \<times> opcode" where
  "stateEndValue s c =
     (case parseState s of
        [] \<Rightarrow> stateEndTop (s\<lparr>step := StateEndTop, endTop := True\<rparr>) c
      | ps # below \<Rightarrow>
          if isSpace c then (s\<lparr>step := StateEndValue\<rparr>, scanSkipSpace)
          else (case ps of
              parseObjectKey \<Rightarrow>
                if c = CHR '':'' then
                  (s\<lparr>parseState := parseObjectValue # below, step := StateBeginValue\<rparr>,
                   scanObjectKey)
                else scan_error s
            | parseObjectValue \<Rightarrow>
                if c = CHR '','' then
                  (s\<lparr>parseState := parseObjectKey # below, step := StateBeginString\<rparr>,
                   scanObjectValue)
                else if c = CHR ''}'' then (popParseState s, scanEndObject)
                else scan_error s
            | parseArrayValue \<Rightarrow>
                if c = CHR '','' then (s\<lparr>step := StateBeginValue\<rparr>, scanArrayValue)
                else if c = CHR '']'' then (popParseState s, scanEndArray)
                else scan_error s))"

definition stateBeginValue :: "scanner \<Rightarrow> char \<Rightarrow> scanner \<times> opcode" where
  "stateBeginValue s c =
     (if isSpace c then (s, scanSkipSpace)
      else if c = CHR ''{'' then
        pushParseState (s\<lparr>step := StateBeginStringOrEmpty\<rparr>) parseObjectKey scanBeginObject
      else if c = CHR ''['' then
        pushParseState (s\<lparr>step := StateBeginValueOrEmpty\<rparr>) parseArrayValue scanBeginArray
      else if c = quote then (s\<lparr>step := StateInString\<rparr>, scanBeginLiteral)
      else if c = CHR ''-'' then (s\<lparr>step := StateNeg\<rparr>, scanBeginLiteral)
      else if c = CHR ''0'' then (s\<lparr>step := State0\<rparr>, scanBeginLiteral)
      else if c = CHR ''t'' then (s\<lparr>step := StateT\<rparr>, scanBeginLiteral)
      else if c = CHR ''f'' then (s\<lparr>step := StateF\<rparr>, scanBeginLiteral)
      else if c = CHR ''n'' then (s\<lparr>step := StateN\<rparr>, scanBeginLiteral)
      else if between CHR ''1'' CHR ''9'' c then (s\<lparr>step := State1\<rparr>, scanBeginLiteral)
      else scan_error s)"

definition stateBeginValueOrEmpty :: "scanner \<Rightarrow> char \<Rightarrow> scanner \<times> opcode" where
  "stateBeginValueOrEmpty s c =
     (if isSpace c then (s, scanSkipSpace)
      else if c = CHR '']'' then stateEndValue s c
      else stateBeginValue s c)"

definition stateBeginString :: "scanner \<Rightarrow> char \<Rightarrow> scanner \<times> opcode" where
  "stateBeginString s c =
     (if isSpace c then (s, scanSkipSpace)
      else if c = quote then (s\<lparr>step := StateInString\<rparr>, scanBeginLiteral)
      else scan_error s)"

definition stateBeginStringOrEmpty :: "scanner \<Rightarrow> char \<Rightarrow> scanner \<times> opcode" where
  "stateBeginStringOrEmpty s c =
     (if isSpace c then (s, scanSkipSpace)
      else if c = CHR ''}'' then
        stateEndValue (s\<lparr>parseState := parseObjectValue # tl (parseState s)\<rparr>) c
      else stateBeginString s c)"

definition stateInString :: "scanner \<Rightarrow> char \<Rightarrow> scanner \<times> opcode" where
  "stateInString s c =
     (if c = quote then (s\<lparr>step := StateEndValue\<rparr>, scanContinue)
      else if c = backslash then (s\<lparr>step := StateInStringEsc\<rparr>, scanContinue)
      else if byte c < 0x20 then scan_error s
      else (s, scanContinue))"

definition stateInStringEsc :: "scanner \<Rightarrow> char \<Rightarrow> scanner \<times> opcode" where
  "stateInStringEsc s c =
     (if c \<in> set ''bfnrt'' \<or> c = backslash \<or> c = CHR ''/'' \<or> c = quote then
        (s\<lparr>step := StateInString\<rparr>, scanContinue)
      else if c = CHR ''u'' then (s\<lparr>step := StateInStringEscU\<rparr>, scanContinue)
      else scan_error s)"

definition stateInStringEscU :: "state \<Rightarrow> scanner \<Rightarrow> char \<Rightarrow> scanner \<times> opcode" where
  "stateInStringEscU next s c =
     (if isHex c then (s\<lparr>step := next\<rparr>, scanContinue) else scan_error s)"

definition state0 :: "scanner \<Rightarrow> char \<Rightarrow> scanner \<times> opcode" where
  "state0 s c =
     (if c = CHR ''.'' then (s\<lparr>step := StateDot\<rparr>, scanContinue)
      else if c = CHR ''e'' \<or> c = CHR ''E'' then (s\<lparr>step := StateE\<rparr>, scanContinue)
      else stateEndValue s c)"

definition state1 :: "scanner \<Rightarrow> char \<Rightarrow> scanner \<times> opcode" where
  "state1 s c =
     (if between CHR ''0'' CHR ''9'' c then (s\<lparr>step := State1\<rparr>, scanContinue)
      else state0 s c)"

definition stateNeg :: "scanner \<Rightarrow> char \<Rightarrow> scanner \<times> opcode" where
  "stateNeg s c =
     (if c = CHR ''0'' then (s\<lparr>step := State0\<rparr>, scanContinue)
      else if between CHR ''1'' CHR ''9'' c then (s\<lparr>step := State1\<rparr>, scanContinue)
      else scan_error s)"

definition stateDot :: "scanner \<Rightarrow> char \<Rightarrow> scanner \<times> opcode" where
  "stateDot s c =
     (if between CHR ''0'' CHR ''9'' c then (s\<lparr>step := StateDot0\<rparr>, scanContinue)
      else scan_error s)"

definition stateDot0 :: "scanner \<Rightarrow> char \<Rightarrow> scanner \<times> opcode" where
  "stateDot0 s c =
     (if between CHR ''0'' CHR ''9'' c then (s, scanContinue)
      else if c = CHR ''e'' \<or> c = CHR ''E'' then (s\<lparr>step := StateE\<rparr>, scanContinue)
      else stateEndValue s c)"

definition stateESign :: "scanner \<Rightarrow> char \<Rightarrow> scanner \<times> opcode" where
  "stateESign s c =
     (if between CHR ''0'' CHR ''9'' c then (s\<lparr>step := StateE0\<rparr>, scanContinue)
      else scan_error s)"

definition stateE :: "scanner \<Rightarrow> char \<Rightarrow> scanner \<times> opcode" where
  "stateE s c =
     (if c = CHR ''+'' \<or> c = CHR ''-'' then (s\<lparr>step := StateESign\<rparr>, scanContinue)
      else stateESign s c)"

definition stateE0 :: "scanner \<Rightarrow> char \<Rightarrow> scanner \<times> opcode" where
  "stateE0 s c =
     (if between CHR ''0'' CHR ''9'' c then (s, scanContinue) else stateEndValue s c)"

text \<open>
  The states inside the literals \<^verbatim>\<open>true\<close>, \<^verbatim>\<open>false\<close> and \<^verbatim>\<open>null\<close> expect one
  byte each and name the next state.
\<close>

definition stateLiteral :: "char \<Rightarrow> state \<Rightarrow> scanner \<Rightarrow> char \<Rightarrow> scanner \<times> opcode" where
  "stateLiteral expected next s c =
     (if c = expected then (s\<lparr>step := next\<rparr>, scanContinue) else scan_error s)"

definition scan_step :: "scanner \<Rightarrow> char \<Rightarrow> scanner \<times> opcode" where
  "scan_step s c =
     (case step s of
        StateBeginValueOrEmpty \<Rightarrow> stateBeginValueOrEmpty s c
      | StateBeginValue \<Rightarrow> stateBeginValue s c
      | StateBeginStringOrEmpty \<Rightarrow> stateBeginStringOrEmpty s c
      | StateBeginString \<Rightarrow> stateBeginString s c
      | StateEndValue \<Rightarrow> stateEndValue s c
      | StateEndTop \<Rightarrow> stateEndTop s c
      | StateInString \<Rightarrow> stateInString s c
      | StateInStringEsc \<Rightarrow> stateInStringEsc s c
      | StateInStringEscU \<Rightarrow> stateInStringEscU StateInStringEscU1 s c
      | StateInStringEscU1 \<Rightarrow> stateInStringEscU StateInStringEscU12 s c
      | StateInStringEscU12 \<Rightarrow> stateInStringEscU StateInStringEscU123 s c
      | StateInStringEscU123 \<Rightarrow> stateInStringEscU StateInString s c
      | StateNeg \<Rightarrow> stateNeg s c
      | State1 \<Rightarrow> state1 s c
      | State0 \<Rightarrow> state0 s c
      | StateDot \<Rightarrow> stateDot s c
      | StateDot0 \<Rightarrow> stateDot0 s c
      | StateE \<Rightarrow> stateE s c
      | StateESign \<Rightarrow> stateESign s c
      | StateE0 \<Rightarrow> stateE0 s c
      | StateT \<Rightarrow> stateLiteral CHR ''r'' StateTr s c
      | StateTr \<Rightarrow> stateLiteral CHR ''u'' StateTru s c
      | StateTru \<Rightarrow> stateLiteral CHR ''e'' StateEndValue s c
      | StateF \<Rightarrow> stateLiteral CHR ''a'' StateFa s c
      | StateFa \<Rightarrow> stateLiteral CHR ''l'' StateFal s c
      | StateFal \<Rightarrow> stateLiteral CHR ''s'' StateFals s c
      | StateFals \<Rightarrow> stateLiteral CHR ''e'' StateEndValue s c
      | StateN \<Rightarrow> stateLiteral CHR ''u'' StateNu s c
      | StateNu \<Rightarrow> stateLiteral CHR ''l'' StateNul s c
      | StateNul \<Rightarrow> stateLiteral CHR ''l'' StateEndValue s c
      | StateError \<Rightarrow> (s, scanError))"

text \<open>\<^verbatim>\<open>scanner.eof\<close>: the input has ended.\<close>

definition scan_eof :: "scanner \<Rightarrow> scanner \<times> opcode" where
  "scan_eof s =
     (if err s \<noteq> None then (s, scanError)
      else if endTop s then (s, scanEnd)
      else (let s' = fst (scan_step s CHR '' '')
            in if endTop s' then (s', scanEnd)
               else if err s' = None then (s'\<lparr>err := Some SyntaxError\<rparr>, scanError)
               else (s', scanError)))"

section \<open>Reading one value from the body\<close>

text \<open>
  \<^verbatim>\<open>Decoder.readValue\<close> (stream.go) runs the scanner over the bytes of the body from
  their start, refilling its buffer as needed, until the scanner reports the end of the
  first value. It returns the number of bytes of that value. \<open>buf\<close> is the whole body and
  \<open>n\<close> the number of bytes scanned so far.
\<close>

definition nonSpace :: "string \<Rightarrow> bool" where
  "nonSpace b \<longleftrightarrow> (\<exists>c \<in> set b. \<not> isSpace c)"

fun readValue_loop :: "string \<Rightarrow> scanner \<Rightarrow> string \<Rightarrow> nat \<Rightarrow> json_error + nat" where
  "readValue_loop buf s [] n =
     (if snd (scan_step s CHR '' '') = scanEnd then Inr n
      else if nonSpace buf then Inl ErrUnexpectedEOF else Inl EOF)"
| "readValue_loop buf s (c # cs) n =
     (let s' = fst (scan_step s c); op = snd (scan_step s c)
      in if op = scanEnd then Inr n
         else if (op = scanEndObject \<or> op = scanEndArray)
                 \<and> snd (stateEndValue s' CHR '' '') = scanEnd then Inr (Suc n)
         else if op = scanError then Inl SyntaxError
         else readValue_loop buf s' cs (Suc n))"

definition readValue :: "string \<Rightarrow> json_error + nat" where
  "readValue buf = readValue_loop buf reset buf 0"

section \<open>UTF-8 and string literals\<close>

text \<open>
  \<^verbatim>\<open>utf8.DecodeRune\<close> and \<^verbatim>\<open>utf8.EncodeRune\<close>. Runes are natural numbers. A mask
  \<^verbatim>\<open>x & (2^k - 1)\<close> is \<open>x mod 2^k\<close>, a shift is a multiplication or a division, and
  the \<^verbatim>\<open>|\<close> of bit ranges that do not overlap is a sum. \<open>first\<close> gives, for a leading
  byte of a multi-byte sequence, the length of the sequence and the range its second byte
  must lie in; it is \<open>None\<close> for the bytes that start no such sequence.
\<close>

definition RuneError :: nat where "RuneError = 0xFFFD"
definition MaxRune :: nat where "MaxRune = 0x10FFFF"

definition first :: "char \<Rightarrow> (nat \<times> nat \<times> nat) option" where
  "first p0 =
     (let b = byte p0
      in if 0xC2 \<le> b \<and> b \<le> 0xDF then Some (2, 0x80, 0xBF)
         else if b = 0xE0 then Some (3, 0xA0, 0xBF)
         else if 0xE1 \<le> b \<and> b \<le> 0xEC then Some (3, 0x80, 0xBF)
         else if b = 0xED then Some (3, 0x80, 0x9F)
         else if 0xEE \<le> b \<and> b \<le> 0xEF then Some (3, 0x80, 0xBF)
         else if b = 0xF0 then Some (4, 0x90, 0xBF)
         else if 0xF1 \<le> b \<and> b \<le> 0xF3 then Some (4, 0x80, 0xBF)
         else if b = 0xF4 then Some (4, 0x80, 0x8F)
         else None)"

definition DecodeRune :: "string \<Rightarrow> nat \<times> nat" where
  "DecodeRune p =
     (case p of
        [] \<Rightarrow> (RuneError, 0)
      | p0 # _ \<Rightarrow>
          if byte p0 < 0x80 then (byte p0, 1)
          else (case first p0 of
              None \<Rightarrow> (RuneError, 1)
            | Some (sz, lo, hi) \<Rightarrow>
                if length p < sz then (RuneError, 1)
                else let b1 = byte (p ! 1) in
                  if b1 < lo \<or> hi < b1 then (RuneError, 1)
                  else if sz \<le> 2 then (byte p0 mod 32 * 64 + b1 mod 64, 2)
                  else let b2 = byte (p ! 2) in
                    if b2 < 0x80 \<or> 0xBF < b2 then (RuneError, 1)
                    else if sz \<le> 3 then
                      (byte p0 mod 16 * 4096 + b1 mod 64 * 64 + b2 mod 64, 3)
                    else let b3 = byte (p ! 3) in
                      if b3 < 0x80 \<or> 0xBF < b3 then (RuneError, 1)
                      else (byte p0 mod 8 * 262144 + b1 mod 64 * 4096 + b2 mod 64 * 64
                              + b3 mod 64, 4)))"

definition EncodeRune3 :: "nat \<Rightarrow> string" where
  "EncodeRune3 r =
     [char_of (0xE0 + r div 4096), char_of (0x80 + r div 64 mod 64), char_of (0x80 + r mod 64)]"

definition EncodeRune :: "nat \<Rightarrow> string" where
  "EncodeRune r =
     (if r \<le> 0x7F then [char_of r]
      else if r \<le> 0x7FF then [char_of (0xC0 + r div 64), char_of (0x80 + r mod 64)]
      else if MaxRune < r \<or> (0xD800 \<le> r \<and> r \<le> 0xDFFF) then EncodeRune3 RuneError
      else if r \<le> 0xFFFF then EncodeRune3 r
      else [char_of (0xF0 + r div 262144), char_of (0x80 + r div 4096 mod 64),
            char_of (0x80 + r div 64 mod 64), char_of (0x80 + r mod 64)])"

definition hexval :: "char \<Rightarrow> nat option" where
  "hexval c =
     (if between CHR ''0'' CHR ''9'' c then Some (byte c - byte CHR ''0'')
      else if between CHR ''a'' CHR ''f'' c then Some (byte c - byte CHR ''a'' + 10)
      else if between CHR ''A'' CHR ''F'' c then Some (byte c - byte CHR ''A'' + 10)
      else None)"

fun getu4_loop :: "string \<Rightarrow> nat \<Rightarrow> nat option" where
  "getu4_loop [] r = Some r"
| "getu4_loop (c # cs) r =
     (case hexval c of None \<Rightarrow> None | Some v \<Rightarrow> getu4_loop cs (r * 16 + v))"

definition getu4 :: "string \<Rightarrow> nat option" where
  "getu4 s =
     (if length s < 6 \<or> s ! 0 \<noteq> backslash \<or> s ! 1 \<noteq> CHR ''u'' then None
      else getu4_loop (take 4 (drop 2 s)) 0)"

definition IsSurrogate :: "nat \<Rightarrow> bool" where
  "IsSurrogate r \<longleftrightarrow> 0xD800 \<le> r \<and> r < 0xE000"

definition utf16_DecodeRune :: "nat \<Rightarrow> nat option \<Rightarrow> nat" where
  "utf16_DecodeRune r1 r2 =
     (case r2 of
        None \<Rightarrow> RuneError
      | Some r2 \<Rightarrow>
          if 0xD800 \<le> r1 \<and> r1 < 0xDC00 \<and> 0xDC00 \<le> r2 \<and> r2 < 0xE000
          then (r1 - 0xD800) * 1024 + (r2 - 0xDC00) + 0x10000
          else RuneError)"

lemma DecodeRune_size: "p \<noteq> [] \<Longrightarrow> 1 \<le> snd (DecodeRune p)"
  by (cases p) (auto simp: DecodeRune_def Let_def split: option.splits)

lemma DecodeRune_drop: "Suc (length cs) - snd (DecodeRune (c # cs)) < Suc (length cs)"
  using DecodeRune_size [of "c # cs"] by (cases "snd (DecodeRune (c # cs))") auto

function unquote_plain :: "string \<Rightarrow> nat" where
  "unquote_plain [] = 0"
| "unquote_plain (c # cs) =
     (if c = backslash \<or> c = quote \<or> byte c < 0x20 then 0
      else if byte c < 0x80 then 1 + unquote_plain cs
      else if DecodeRune (c # cs) = (RuneError, 1) then 0
      else snd (DecodeRune (c # cs)) + unquote_plain (drop (snd (DecodeRune (c # cs))) (c # cs)))"
  by pat_completeness auto
termination
  by (relation "measure length") (auto intro: DecodeRune_drop)



definition unescape :: "char \<Rightarrow> char option" where
  "unescape e =
     (if e = quote \<or> e = backslash \<or> e = CHR ''/'' \<or> e = CHR 0x27 then Some e
      else if e = CHR ''b'' then Some (CHR 0x08)
      else if e = CHR ''f'' then Some (CHR 0x0C)
      else if e = CHR ''n'' then Some (CHR 0x0A)
      else if e = CHR ''r'' then Some (CHR 0x0D)
      else if e = CHR ''t'' then Some (CHR 0x09)
      else None)"

definition escape_u :: "string \<Rightarrow> (nat \<times> nat) option" where
  "escape_u s =
     (case getu4 s of
        None \<Rightarrow> None
      | Some rr \<Rightarrow>
          if IsSurrogate rr then
            (let dec = utf16_DecodeRune rr (getu4 (drop 6 s))
             in if dec \<noteq> RuneError then Some (dec, 12) else Some (RuneError, 6))
          else Some (rr, 6))"

function unquote_loop :: "string \<Rightarrow> string option" where
  "unquote_loop [] = Some []"
| "unquote_loop (c # t) =
     (if c = backslash then
        (if t = [] then None
         else if hd t = CHR ''u'' then
           (if escape_u (c # t) = None then None
            else map_option ((@) (EncodeRune (fst (the (escape_u (c # t))))))
                   (unquote_loop (drop (snd (the (escape_u (c # t)))) (c # t))))
         else if unescape (hd t) = None then None
         else map_option ((#) (the (unescape (hd t)))) (unquote_loop (tl t)))
      else if c = quote \<or> byte c < 0x20 then None
      else if byte c < 0x80 then map_option ((#) c) (unquote_loop t)
      else map_option ((@) (EncodeRune (fst (DecodeRune (c # t)))))
             (unquote_loop (drop (snd (DecodeRune (c # t))) (c # t))))"
  by pat_completeness auto
termination
proof (relation "measure length", goal_cases)
  case (2 c t)
  then obtain r k where "escape_u (c # t) = Some (r, k)" by fastforce
  moreover from this have "k = 6 \<or> k = 12"
    by (auto simp: escape_u_def Let_def split: option.splits if_splits)
  ultimately show ?case by auto
next
  case (3 c t)
  then show ?case by (cases t) auto
next
  case (5 c t)
  then show ?case
    using DecodeRune_size [of "c # t"] by (cases "snd (DecodeRune (c # t))") auto
qed simp_all

text \<open>\<^verbatim>\<open>unquoteBytes\<close>: the Go string a JSON string literal, quotes included, denotes.\<close>

definition unquoteBytes :: "string \<Rightarrow> string option" where
  "unquoteBytes s =
     (if length s < 2 \<or> hd s \<noteq> quote \<or> last s \<noteq> quote then None
      else let s' = butlast (tl s); r = unquote_plain s'
           in if r = length s' then Some s'
              else map_option ((@) (take r s')) (unquote_loop (drop r s')))"


section \<open>Decoding into the struct\<close>

text \<open>
  The four fields of \<^verbatim>\<open>Cat\<close> with the names their \<^verbatim>\<open>json\<close> tags give them.
  \<^verbatim>\<open>decodeState.object\<close> looks a key up by its exact name first and by its folded name
  second. \<^verbatim>\<open>foldName\<close> maps the ASCII letters to upper case. It also replaces a rune
  outside ASCII by the least rune of its case-folding orbit, which is again outside ASCII
  or one of \<^verbatim>\<open>K\<close> and \<^verbatim>\<open>S\<close>; as neither letter occurs in the four names, leaving
  such bytes as they are gives the same field for every key.
\<close>

datatype field = Field_Name | Field_ID | Field_BirthDate | Field_Color

fun field_name :: "field \<Rightarrow> string" where
  "field_name Field_Name = ''name''"
| "field_name Field_ID = ''id''"
| "field_name Field_BirthDate = ''birthDate''"
| "field_name Field_Color = ''color''"

definition fields_list :: "field list" where
  "fields_list = [Field_Name, Field_ID, Field_BirthDate, Field_Color]"

definition foldName :: "string \<Rightarrow> string" where
  "foldName = map (\<lambda>c. if between CHR ''a'' CHR ''z'' c then char_of (byte c - 32) else c)"

definition byExactName :: "string \<Rightarrow> field option" where
  "byExactName key = find (\<lambda>f. field_name f = key) fields_list"

definition byFoldedName :: "string \<Rightarrow> field option" where
  "byFoldedName key = find (\<lambda>f. foldName (field_name f) = key) fields_list"

definition lookup_field :: "string \<Rightarrow> field option" where
  "lookup_field key =
     (case byExactName key of Some f \<Rightarrow> Some f | None \<Rightarrow> byFoldedName (foldName key))"

fun SetString :: "field \<Rightarrow> string \<Rightarrow> Cat \<Rightarrow> Cat" where
  "SetString Field_Name t v = v\<lparr>Name := t\<rparr>"
| "SetString Field_ID t v = v\<lparr>ID := t\<rparr>"
| "SetString Field_BirthDate t v = v\<lparr>BirthDate := t\<rparr>"
| "SetString Field_Color t v = v\<lparr>Color := t\<rparr>"

text \<open>
  \<^verbatim>\<open>decodeState\<close> (decode.go) walks the bytes of the value \<^verbatim>\<open>readValue\<close> delimited.
  Its index \<^verbatim>\<open>off\<close> only moves forward: \<open>unread\<close> is \<^verbatim>\<open>data[off:]\<close> and \<open>lastRead\<close> is
  \<^verbatim>\<open>data[off-1]\<close>, the byte read last. \<open>target\<close> is the struct the caller's pointer refers
  to. A result \<open>None\<close> of the functions below is a panic of the Go code
  (\<^verbatim>\<open>phasePanicMsg\<close>, or an index out of range).
\<close>

record decodeState =
  lastRead :: char
  unread :: string
  opcode :: opcode
  scan :: scanner
  savedError :: "json_error option"
  target :: Cat

definition saveError :: "json_error \<Rightarrow> decodeState \<Rightarrow> decodeState" where
  "saveError e d = (if savedError d = None then d\<lparr>savedError := Some e\<rparr> else d)"

definition scanned :: "char \<Rightarrow> string \<Rightarrow> scanner \<times> opcode \<Rightarrow> decodeState \<Rightarrow> decodeState" where
  "scanned c cs r d = d\<lparr>lastRead := c, unread := cs, opcode := snd r, scan := fst r\<rparr>"

definition at_eof :: "decodeState \<Rightarrow> decodeState" where
  "at_eof d = d\<lparr>unread := [], opcode := snd (scan_eof (scan d)), scan := fst (scan_eof (scan d))\<rparr>"

definition scanNext :: "decodeState \<Rightarrow> decodeState" where
  "scanNext d =
     (case unread d of
        c # cs \<Rightarrow> scanned c cs (scan_step (scan d) c) d
      | [] \<Rightarrow> at_eof d)"

fun scanWhile_loop :: "opcode \<Rightarrow> decodeState \<Rightarrow> string \<Rightarrow> decodeState" where
  "scanWhile_loop op d [] = at_eof d"
| "scanWhile_loop op d (c # cs) =
     (if snd (scan_step (scan d) c) \<noteq> op then scanned c cs (scan_step (scan d) c) d
      else scanWhile_loop op (d\<lparr>scan := fst (scan_step (scan d) c)\<rparr>) cs)"

definition scanWhile :: "opcode \<Rightarrow> decodeState \<Rightarrow> decodeState" where
  "scanWhile op d = scanWhile_loop op d (unread d)"

fun skip_loop :: "nat \<Rightarrow> decodeState \<Rightarrow> string \<Rightarrow> decodeState option" where
  "skip_loop depth d [] = None"
| "skip_loop depth d (c # cs) =
     (if length (parseState (fst (scan_step (scan d) c))) < depth
      then Some (scanned c cs (scan_step (scan d) c) d)
      else skip_loop depth (d\<lparr>scan := fst (scan_step (scan d) c)\<rparr>) cs)"

definition skip :: "decodeState \<Rightarrow> decodeState option" where
  "skip d = skip_loop (length (parseState (scan d))) d (unread d)"

fun rescan_string :: "string \<Rightarrow> (string \<times> string) option" where
  "rescan_string [] = Some ([], [])"
| "rescan_string (c # cs) =
     (if c = backslash then
        (case cs of
           [] \<Rightarrow> None
         | e # cs' \<Rightarrow> map_option (\<lambda>(lit, r). (c # e # lit, r)) (rescan_string cs'))
      else if c = quote then Some ([c], cs)
      else map_option (\<lambda>(lit, r). (c # lit, r)) (rescan_string cs))"

definition number_byte :: "char \<Rightarrow> bool" where
  "number_byte c \<longleftrightarrow> between CHR ''0'' CHR ''9'' c \<or> c \<in> set ''.eE+-''"

definition rescan_fixed :: "nat \<Rightarrow> string \<Rightarrow> (string \<times> string) option" where
  "rescan_fixed k cs = (if length cs < k then None else Some (take k cs, drop k cs))"

definition rescanLiteral :: "decodeState \<Rightarrow> (string \<times> decodeState) option" where
  "rescanLiteral d =
     (let c0 = lastRead d;
          found =
            (if c0 = quote then rescan_string (unread d)
             else if between CHR ''0'' CHR ''9'' c0 \<or> c0 = CHR ''-'' then
               Some (takeWhile number_byte (unread d), dropWhile number_byte (unread d))
             else if c0 = CHR ''t'' then rescan_fixed 3 (unread d)
             else if c0 = CHR ''f'' then rescan_fixed 4 (unread d)
             else if c0 = CHR ''n'' then rescan_fixed 3 (unread d)
             else Some ([], unread d))
      in case found of
           None \<Rightarrow> None
         | Some (lit, []) \<Rightarrow> Some (c0 # lit, d\<lparr>unread := [], opcode := scanEnd\<rparr>)
         | Some (lit, c # cs) \<Rightarrow> Some (c0 # lit, scanned c cs (stateEndValue (scan d) c) d))"

definition literal_number :: "string \<Rightarrow> bool" where
  "literal_number item \<longleftrightarrow>
     (case item of [] \<Rightarrow> False | c # _ \<Rightarrow> c = CHR ''-'' \<or> between CHR ''0'' CHR ''9'' c)"

text \<open>\<^verbatim>\<open>literalStore\<close> when the target is a string field of the struct.\<close>

definition literalStore_string :: "field \<Rightarrow> string \<Rightarrow> decodeState \<Rightarrow> decodeState option" where
  "literalStore_string f item d =
     (case item of
        [] \<Rightarrow> Some (saveError Errorf d)
      | c # _ \<Rightarrow>
          if c = CHR ''n'' then Some d
          else if c = CHR ''t'' \<or> c = CHR ''f'' then Some (saveError UnmarshalTypeError d)
          else if c = quote then
            (case unquoteBytes item of
               None \<Rightarrow> None
             | Some t \<Rightarrow> Some (d\<lparr>target := SetString f t (target d)\<rparr>))
          else if \<not> literal_number item then None
          else Some (saveError UnmarshalTypeError d))"

text \<open>\<^verbatim>\<open>literalStore\<close> when the target is the struct itself.\<close>

definition literalStore_struct :: "string \<Rightarrow> decodeState \<Rightarrow> decodeState option" where
  "literalStore_struct item d =
     (case item of
        [] \<Rightarrow> Some (saveError Errorf d)
      | c # _ \<Rightarrow>
          if c = CHR ''n'' then Some d
          else if c = CHR ''t'' \<or> c = CHR ''f'' then Some (saveError UnmarshalTypeError d)
          else if c = quote then
            (case unquoteBytes item of
               None \<Rightarrow> None
             | Some t \<Rightarrow> Some (saveError UnmarshalTypeError d))
          else if \<not> literal_number item then None
          else Some (saveError UnmarshalTypeError d))"

text \<open>
  \<^verbatim>\<open>decodeState.value\<close> for the value of one key of the object: the target \<open>subv\<close> is a
  string field of the struct, or invalid (\<open>None\<close>) when no field has the key's name, and
  then the value is skipped. An array or an object cannot be stored in a string field:
  the error is saved and the value skipped.
\<close>

definition value_field :: "field option \<Rightarrow> decodeState \<Rightarrow> decodeState option" where
  "value_field subv d =
     (if opcode d = scanBeginArray \<or> opcode d = scanBeginObject then
        map_option scanNext
          (case subv of
             Some f \<Rightarrow> skip (saveError UnmarshalTypeError d)
           | None \<Rightarrow> skip d)
      else if opcode d = scanBeginLiteral then
        (case rescanLiteral d of
           None \<Rightarrow> None
         | Some (item, d') \<Rightarrow>
             (case subv of Some f \<Rightarrow> literalStore_string f item d' | None \<Rightarrow> Some d'))
      else None)"

text \<open>
  One iteration of the loop of \<^verbatim>\<open>decodeState.object\<close>: a key, the colon, the value, and
  the comma or the closing brace.
\<close>

datatype iteration = Panicked | Break decodeState | Again decodeState

definition skipSpace :: "decodeState \<Rightarrow> decodeState" where
  "skipSpace d = (if opcode d = scanSkipSpace then scanWhile scanSkipSpace d else d)"

definition object_iteration :: "decodeState \<Rightarrow> iteration" where
  "object_iteration d =
     (let d1 = scanWhile scanSkipSpace d
      in if opcode d1 = scanEndObject then Break d1
         else if opcode d1 \<noteq> scanBeginLiteral then Panicked
         else (case rescanLiteral d1 of
             None \<Rightarrow> Panicked
           | Some (item, d2) \<Rightarrow>
               (case unquoteBytes item of
                  None \<Rightarrow> Panicked
                | Some key \<Rightarrow>
                    let d3 = skipSpace d2
                    in if opcode d3 \<noteq> scanObjectKey then Panicked
                       else (case value_field (lookup_field key) (scanWhile scanSkipSpace d3) of
                           None \<Rightarrow> Panicked
                         | Some d5 \<Rightarrow>
                             let d6 = skipSpace d5
                             in if opcode d6 = scanEndObject then Break d6
                                else if opcode d6 \<noteq> scanObjectValue then Panicked
                                else Again d6))))"


text \<open>The loop ends: no step moves backwards, and an iteration that continues has read a key.\<close>

lemma scanned_simps [simp]:
  "lastRead (scanned c cs r d) = c" "unread (scanned c cs r d) = cs"
  "opcode (scanned c cs r d) = snd r" "scan (scanned c cs r d) = fst r"
  "savedError (scanned c cs r d) = savedError d" "target (scanned c cs r d) = target d"
  by (simp_all add: scanned_def)

lemma at_eof_simps [simp]:
  "lastRead (at_eof d) = lastRead d" "unread (at_eof d) = []"
  "opcode (at_eof d) = snd (scan_eof (scan d))" "scan (at_eof d) = fst (scan_eof (scan d))"
  "savedError (at_eof d) = savedError d" "target (at_eof d) = target d"
  by (simp_all add: at_eof_def)

lemma scan_eof_opcode: "snd (scan_eof s) = scanEnd \<or> snd (scan_eof s) = scanError"
  by (simp add: scan_eof_def Let_def)

lemma scanWhile_loop_rest: "length (unread (scanWhile_loop op d cs)) \<le> length cs"
  by (induction cs arbitrary: d) (auto split: prod.splits simp: le_SucI)

lemma scanWhile_loop_rest_less:
  "cs \<noteq> [] \<Longrightarrow> length (unread (scanWhile_loop op d cs)) < length cs"
  using scanWhile_loop_rest [of op _ "tl cs"]
  by (cases cs) (auto split: prod.splits simp: less_Suc_eq_le)

lemma scanWhile_loop_eof:
  "opcode (scanWhile_loop op d []) = scanEnd \<or> opcode (scanWhile_loop op d []) = scanError"
  using scan_eof_opcode [of "scan d"] by (auto split: prod.splits)

lemma scanWhile_rest: "length (unread (scanWhile op d)) \<le> length (unread d)"
  by (simp add: scanWhile_def scanWhile_loop_rest)

lemma scanWhile_rest_less:
  "opcode (scanWhile op d) \<noteq> scanEnd \<Longrightarrow> opcode (scanWhile op d) \<noteq> scanError \<Longrightarrow>
   length (unread (scanWhile op d)) < length (unread d)"
  using scanWhile_loop_eof [of op d] scanWhile_loop_rest_less [of "unread d" op d]
  by (cases "unread d = []") (auto simp: scanWhile_def)

lemma skipSpace_rest: "length (unread (skipSpace d)) \<le> length (unread d)"
  by (simp add: skipSpace_def scanWhile_rest)

lemma scanNext_rest: "length (unread (scanNext d)) \<le> length (unread d)"
  by (auto simp: scanNext_def split: list.splits prod.splits)

lemma skip_loop_rest: "skip_loop depth d cs = Some d' \<Longrightarrow> length (unread d') \<le> length cs"
  by (induction cs arbitrary: d) (auto split: prod.splits if_splits simp: le_SucI)

lemma skip_rest: "skip d = Some d' \<Longrightarrow> length (unread d') \<le> length (unread d)"
  by (simp add: skip_def skip_loop_rest)

lemma saveError_rest [simp]: "unread (saveError e d) = unread d"
  by (simp add: saveError_def)

lemma rescan_string_rest: "rescan_string cs = Some (lit, r) \<Longrightarrow> length r \<le> length cs"
  by (induction cs arbitrary: lit r rule: rescan_string.induct)
    (auto split: if_splits list.splits simp: le_SucI)

lemma rescanLiteral_rest:
  assumes "rescanLiteral d = Some (item, d')"
  shows "length (unread d') \<le> length (unread d)"
proof -
  have dw: "length (dropWhile P xs) \<le> length xs" for P and xs :: string
    by (induction xs) auto
  have "length r \<le> length (unread d)"
    if "(if lastRead d = quote then rescan_string (unread d)
         else if between CHR ''0'' CHR ''9'' (lastRead d) \<or> lastRead d = CHR ''-'' then
           Some (takeWhile number_byte (unread d), dropWhile number_byte (unread d))
         else if lastRead d = CHR ''t'' then rescan_fixed 3 (unread d)
         else if lastRead d = CHR ''f'' then rescan_fixed 4 (unread d)
         else if lastRead d = CHR ''n'' then rescan_fixed 3 (unread d)
         else Some ([], unread d)) = Some (lit, r)" for lit r
    using that dw [of number_byte "unread d"]
    by (auto split: if_splits simp: rescan_fixed_def dest: rescan_string_rest)
  with assms show ?thesis
    by (auto simp: rescanLiteral_def Let_def split: option.splits list.splits prod.splits)
qed

lemma literalStore_string_rest:
  "literalStore_string f item d = Some d' \<Longrightarrow> unread d' = unread d"
  by (auto simp: literalStore_string_def split: list.splits if_splits option.splits)

lemma value_field_rest:
  assumes "value_field subv d = Some d'"
  shows "length (unread d') \<le> length (unread d)"
proof (cases "opcode d = scanBeginArray \<or> opcode d = scanBeginObject")
  case True
  with assms obtain d1 where d1: "d' = scanNext d1"
    and sk: "skip (saveError UnmarshalTypeError d) = Some d1 \<or> skip d = Some d1"
    by (auto simp: value_field_def split: option.splits)
  from sk have "length (unread d1) \<le> length (unread d)"
    by (auto dest: skip_rest)
  with d1 scanNext_rest [of d1] show ?thesis by simp
next
  case False
  with assms obtain item d1 where r: "rescanLiteral d = Some (item, d1)"
    and d': "d' = d1 \<or> (\<exists>f. literalStore_string f item d1 = Some d')"
    by (auto simp: value_field_def split: option.splits if_splits) blast
  from d' have "unread d' = unread d1"
    by (auto dest: literalStore_string_rest)
  with rescanLiteral_rest [OF r] show ?thesis by simp
qed

lemma object_iteration_rest:
  assumes "object_iteration d = Again d'"
  shows "length (unread d') < length (unread d)"
proof -
  let ?d1 = "scanWhile scanSkipSpace d"
  from assms have op1: "opcode ?d1 = scanBeginLiteral"
    by (auto simp: object_iteration_def Let_def split: if_splits)
  then have l1: "length (unread ?d1) < length (unread d)"
    by (intro scanWhile_rest_less) simp_all
  from assms op1 obtain item d2 key d5 where
    r: "rescanLiteral ?d1 = Some (item, d2)" and
    v: "value_field (lookup_field key) (scanWhile scanSkipSpace (skipSpace d2)) = Some d5" and
    d': "d' = skipSpace d5"
    by (auto simp: object_iteration_def Let_def split: if_splits option.splits)
  have "length (unread d') \<le> length (unread d5)"
    by (simp add: d' skipSpace_rest)
  also have "\<dots> \<le> length (unread (scanWhile scanSkipSpace (skipSpace d2)))"
    by (rule value_field_rest [OF v])
  also have "\<dots> \<le> length (unread (skipSpace d2))"
    by (rule scanWhile_rest)
  also have "\<dots> \<le> length (unread d2)"
    by (rule skipSpace_rest)
  also have "\<dots> \<le> length (unread ?d1)"
    by (rule rescanLiteral_rest [OF r])
  finally show ?thesis using l1 by simp
qed

fun continues :: "iteration \<Rightarrow> bool" where
  "continues (Again d) = True"
| "continues _ = False"

fun after :: "iteration \<Rightarrow> decodeState option" where
  "after Panicked = None"
| "after (Break d) = Some d"
| "after (Again d) = Some d"

function object_loop :: "decodeState \<Rightarrow> decodeState option" where
  "object_loop d =
     (if continues (object_iteration d) then object_loop (the (after (object_iteration d)))
      else after (object_iteration d))"
  by pat_completeness auto
termination
proof (relation "measure (\<lambda>d. length (unread d))", goal_cases)
  case (2 d)
  then obtain d' where "object_iteration d = Again d'"
    by (cases "object_iteration d") auto
  then show ?case by (simp add: object_iteration_rest)
qed simp

text \<open>\<^verbatim>\<open>decodeState.value\<close> when the target is the struct the caller passed.\<close>

definition value_struct :: "decodeState \<Rightarrow> decodeState option" where
  "value_struct d =
     (if opcode d = scanBeginArray then
        map_option scanNext (skip (saveError UnmarshalTypeError d))
      else if opcode d = scanBeginObject then map_option scanNext (object_loop d)
      else if opcode d = scanBeginLiteral then
        (case rescanLiteral d of
           None \<Rightarrow> None
         | Some (item, d') \<Rightarrow> literalStore_struct item d')
      else None)"

definition init :: "string \<Rightarrow> Cat \<Rightarrow> decodeState" where
  "init data v =
     \<lparr>lastRead = CHR 0x00, unread = data, opcode = scanContinue, scan = reset, savedError = None,
      target = v\<rparr>"

definition unmarshal :: "string \<Rightarrow> Cat \<Rightarrow> (json_error option \<times> Cat) option" where
  "unmarshal data v =
     map_option (\<lambda>d. (savedError d, target d)) (value_struct (scanWhile scanSkipSpace (init data v)))"

definition Decode :: "string \<Rightarrow> Cat \<Rightarrow> (json_error option \<times> Cat) option" where
  "Decode body v =
     (case readValue body of
        Inl e \<Rightarrow> Some (Some e, v)
      | Inr n \<Rightarrow> unmarshal (take n body) v)"

definition zero_Cat :: Cat where
  "zero_Cat = \<lparr>Name = '''', ID = '''', BirthDate = '''', Color = ''''\<rparr>"

text \<open>
  Two predicates for reasoning about \<open>readValue\<close>. A scanner has \<open>started\<close> when, at the
  top level, it is inside a string or a literal name, past a value, or in error: it is
  not waiting for a value and not inside a top-level number. A byte is \<open>numeric\<close> when
  it can begin a number.
\<close>

definition started :: "scanner \<Rightarrow> bool" where
  "started s \<longleftrightarrow>
     (parseState s = [] \<longrightarrow>
        step s \<in> {StateEndValue, StateEndTop, StateInString, StateInStringEsc, StateInStringEscU,
          StateInStringEscU1, StateInStringEscU12, StateInStringEscU123, StateT, StateTr, StateTru,
          StateF, StateFa, StateFal, StateFals, StateN, StateNu, StateNul, StateError})"

definition numeric :: "char \<Rightarrow> bool" where
  "numeric c \<longleftrightarrow> c = CHR ''-'' \<or> between CHR ''0'' CHR ''9'' c"

section \<open>Handlers that do not read a body\<close>

text \<open>
  \<^verbatim>\<open>for catID := range aMap\<close> visits every key of the map once, in an order the Go
  runtime chooses anew for each loop. The order is a parameter of the model;
  \<open>range_order\<close> says what the runtime guarantees about it.
\<close>

definition range_order :: "store \<Rightarrow> string list \<Rightarrow> bool" where
  "range_order aMap order \<longleftrightarrow> distinct order \<and> set order = dom aMap"

fun listMapKeys_loop :: "string list \<Rightarrow> string list \<Rightarrow> string list" where
  "listMapKeys_loop [] results = results"
| "listMapKeys_loop (catID # rest) results = listMapKeys_loop rest (results @ [catID])"

definition listMapKeys :: "string list \<Rightarrow> store \<Rightarrow> string list" where
  "listMapKeys order aMap = listMapKeys_loop order []"

definition listCats :: "string list \<Rightarrow> store \<Rightarrow> response" where
  "listCats order db = (StatusOK, Strings_payload (listMapKeys order db))"

text \<open>\<^verbatim>\<open>req.PathValue("catId")\<close> is the parameter \<open>catID\<close>.\<close>

definition deleteCat :: "string \<Rightarrow> store \<Rightarrow> response \<times> store" where
  "deleteCat catID db =
     (case db catID of
        Some _ \<Rightarrow> ((StatusNoContent, Nil_payload), db(catID := None))
      | None \<Rightarrow> ((StatusNotFound, String_payload ''Cat not found''), db))"

definition getCat :: "string \<Rightarrow> store \<Rightarrow> response" where
  "getCat catID db =
     (case db catID of
        Some cat \<Rightarrow> (StatusOK, Cat_payload cat)
      | None \<Rightarrow> (StatusNotFound, String_payload ''Cat not found''))"

section \<open>The create handler\<close>

text \<open>
  \<^verbatim>\<open>var catCreationData Cat\<close> is the zero value. \<^verbatim>\<open>uuid.New().String()\<close> draws a random
  version 4 UUID; the string it returns is the parameter \<open>newCatID\<close>. The handler returns
  nothing (\<open>None\<close>) when decoding panics.
\<close>

definition createCat :: "string \<Rightarrow> string \<Rightarrow> store \<Rightarrow> (response \<times> store) option" where
  "createCat body newCatID db =
     (case Decode body zero_Cat of
        None \<Rightarrow> None
      | Some (Some e, catCreationData) \<Rightarrow>
          Some ((StatusBadRequest, String_payload ''Invalid JSON input''), db)
      | Some (None, catCreationData) \<Rightarrow>
          Some ((StatusCreated, String_payload newCatID),
                db(newCatID \<mapsto> catCreationData\<lparr>ID := newCatID\<rparr>)))"

section \<open>Sequences of requests\<close>

text \<open>
  The life of the process is a sequence of handler calls on the store, starting from
  \<open>catsDatabase\<close>. A call carries what the environment supplies: the body and the
  generated identifier for a create, the path value for a get or a delete, the iteration
  order for a list. \<open>run\<close> logs each call with its response.
\<close>

datatype call =
  List_call "string list"
  | Create_call string string
  | Get_call string
  | Delete_call string

fun handle :: "call \<Rightarrow> store \<Rightarrow> (response \<times> store) option" where
  "handle (List_call order) db = Some (listCats order db, db)"
| "handle (Create_call body newCatID) db = createCat body newCatID db"
| "handle (Get_call catID) db = Some (getCat catID db, db)"
| "handle (Delete_call catID) db = Some (deleteCat catID db)"

fun run :: "call list \<Rightarrow> store \<Rightarrow> ((call \<times> response) list \<times> store) option" where
  "run [] db = Some ([], db)"
| "run (c # cs) db =
     (case handle c db of
        None \<Rightarrow> None
      | Some (r, db') \<Rightarrow> map_option (\<lambda>(log, db''). ((c, r) # log, db'')) (run cs db'))"

text \<open>The identifiers the successful creates returned, and those the successful deletes removed.\<close>

fun created :: "(call \<times> response) list \<Rightarrow> string list" where
  "created [] = []"
| "created ((Create_call body newCatID, (status, p)) # log) =
     (if status = StatusCreated then newCatID # created log else created log)"
| "created (_ # log) = created log"

fun deleted :: "(call \<times> response) list \<Rightarrow> string list" where
  "deleted [] = []"
| "deleted ((Delete_call catID, (status, p)) # log) =
     (if status = StatusNoContent then catID # deleted log else deleted log)"
| "deleted (_ # log) = deleted log"

section \<open>Basic facts\<close>

lemma listMapKeys_loop_append: "listMapKeys_loop order results = results @ order"
  by (induction order arbitrary: results) simp_all

lemma listMapKeys_eq: "listMapKeys order aMap = order"
  by (simp add: listMapKeys_def listMapKeys_loop_append)

lemma dom_catsDatabase: "dom catsDatabase = {''id1''}"
  by (simp add: catsDatabase_def)

lemma range_order_length:
  "range_order aMap order \<Longrightarrow> length order = card (dom aMap)"
  by (metis distinct_card range_order_def)

section \<open>Evaluating the decoder\<close>

lemmas scan_eval = reset_def scan_step_def stateBeginValue_def stateBeginStringOrEmpty_def
  stateBeginString_def stateBeginValueOrEmpty_def stateInString_def stateInStringEsc_def
  stateInStringEscU_def stateEndValue_def stateEndTop_def pushParseState_def popParseState_def
  isSpace_def maxNestingDepth_def state0_def state1_def stateNeg_def stateDot_def stateDot0_def
  stateE_def stateESign_def stateE0_def stateLiteral_def scan_error_def scan_eof_def Let_def
  quote_def backslash_def between_def byte_def isHex_def

lemmas decode_eval = scan_eval readValue_def nonSpace_def Decode_def unmarshal_def init_def
  value_struct_def scanWhile_def scanNext_def scanned_def at_eof_def skip_def saveError_def
  rescanLiteral_def rescan_fixed_def number_byte_def literal_number_def literalStore_string_def
  literalStore_struct_def value_field_def skipSpace_def object_iteration_def lookup_field_def
  byExactName_def byFoldedName_def foldName_def fields_list_def unquoteBytes_def unescape_def
  escape_u_def getu4_def hexval_def IsSurrogate_def utf16_DecodeRune_def DecodeRune_def
  EncodeRune_def EncodeRune3_def first_def RuneError_def MaxRune_def zero_Cat_def

lemma Decode_Toto:
  "Decode ''{\"name\":\"Toto\",\"color\":\"Grey\"}'' zero_Cat =
     Some (None, \<lparr>Name = ''Toto'', ID = '''', BirthDate = '''', Color = ''Grey''\<rparr>)"
  by (simp add: decode_eval)

lemma Decode_Fluffy:
  "Decode ''{\"name\":\"Fluffy\",\"birthDate\":\"2023-01-15\",\"color\":\"White\"}'' zero_Cat =
     Some (None, \<lparr>Name = ''Fluffy'', ID = '''', BirthDate = ''2023-01-15'', Color = ''White''\<rparr>)"
  by (simp add: decode_eval)

lemma Decode_client_id:
  "Decode ''{\"name\":\"Tom\",\"id\":\"client-7\"}'' zero_Cat =
     Some (None, \<lparr>Name = ''Tom'', ID = ''client-7'', BirthDate = '''', Color = ''''\<rparr>)"
  by (simp add: decode_eval)

lemma Decode_invalid:
  "Decode ''{ invalid json }'' zero_Cat = Some (Some SyntaxError, zero_Cat)"
  by (simp add: decode_eval)

lemma Decode_wrong_shape:
  "Decode ''{\"name\":5}'' zero_Cat = Some (Some UnmarshalTypeError, zero_Cat)"
  by (simp add: decode_eval)

lemma Decode_empty: "Decode [] zero_Cat = Some (Some EOF, zero_Cat)"
  by (simp add: decode_eval)

section \<open>What a call does to the keys of the store\<close>

lemma createCat_cases:
  "createCat body newCatID db = None \<and> Decode body zero_Cat = None \<or>
   (\<exists>e c. Decode body zero_Cat = Some (Some e, c) \<and>
      createCat body newCatID db =
        Some ((StatusBadRequest, String_payload ''Invalid JSON input''), db)) \<or>
   (\<exists>c. Decode body zero_Cat = Some (None, c) \<and>
      createCat body newCatID db =
        Some ((StatusCreated, String_payload newCatID), db(newCatID \<mapsto> c\<lparr>ID := newCatID\<rparr>)))"
  by (auto simp: createCat_def split: option.splits)

lemma handle_dom:
  assumes "handle c db = Some (r, db')"
  shows "dom db' = (dom db \<union> set (created [(c, r)])) - set (deleted [(c, r)])"
    and "set (deleted [(c, r)]) \<subseteq> dom db"
    and "length (created [(c, r)]) \<le> 1"
proof -
  show "dom db' = (dom db \<union> set (created [(c, r)])) - set (deleted [(c, r)])"
  proof (cases c)
    case (Create_call body newCatID)
    with assms createCat_cases [of body newCatID db] show ?thesis
      by (cases r) auto
  next
    case (Delete_call catID)
    with assms show ?thesis
      by (cases r) (auto simp: deleteCat_def split: option.splits if_splits)
  qed (use assms in \<open>auto simp: listCats_def getCat_def split: option.splits\<close>)
  show "set (deleted [(c, r)]) \<subseteq> dom db"
  proof (cases c)
    case (Delete_call catID)
    with assms show ?thesis
      by (cases r) (auto simp: deleteCat_def split: option.splits if_splits)
  qed (cases r; simp)+
  show "length (created [(c, r)]) \<le> 1"
    by (cases c; cases r; simp)
qed

lemma created_Cons: "created (x # log) = created [x] @ created log"
proof -
  obtain c r where "x = (c, r)" by (cases x)
  then show ?thesis by (cases c; cases r; simp)
qed

lemma deleted_Cons: "deleted (x # log) = deleted [x] @ deleted log"
proof -
  obtain c r where "x = (c, r)" by (cases x)
  then show ?thesis by (cases c; cases r; simp)
qed

lemma run_dom_subset:
  "run calls db0 = Some (log, db) \<Longrightarrow> dom db \<subseteq> dom db0 \<union> set (created log)"
proof (induction calls arbitrary: db0 log)
  case Nil
  then show ?case by simp
next
  case (Cons c cs)
  then obtain r db1 log' where h: "handle c db0 = Some (r, db1)"
    and r: "run cs db1 = Some (log', db)" and log: "log = (c, r) # log'"
    by (auto split: option.splits)
  from Cons.IH [OF r] handle_dom(1) [OF h] show ?case
    unfolding log created_Cons [of "(c, r)" log'] by auto
qed

lemma run_dom:
  assumes "run calls db0 = Some (log, db)" and "finite (dom db0)"
    and "distinct (created log)" and "set (created log) \<inter> dom db0 = {}"
  shows "dom db = (dom db0 \<union> set (created log)) - set (deleted log)
     \<and> finite (dom db)
     \<and> card (dom db) + length (deleted log) = card (dom db0) + length (created log)"
  using assms
proof (induction calls arbitrary: db0 log)
  case Nil
  then show ?case by simp
next
  case (Cons c cs)
  then obtain r db1 log' where h: "handle c db0 = Some (r, db1)"
    and r: "run cs db1 = Some (log', db)" and log: "log = (c, r) # log'"
    by (auto split: option.splits)
  let ?C = "created [(c, r)]" and ?D = "deleted [(c, r)]"
  have cr: "created log = ?C @ created log'" and de: "deleted log = ?D @ deleted log'"
    unfolding log by (rule created_Cons, rule deleted_Cons)
  note hd = handle_dom [OF h]
  have fin1: "finite (dom db1)"
    using hd(1) Cons.prems(2) by simp
  have dis: "distinct (created log')" and disj: "set (created log') \<inter> dom db1 = {}"
    using Cons.prems(3,4) hd(1) unfolding cr by auto
  note IH = Cons.IH [OF r fin1 dis disj]
  have D: "set ?D \<subseteq> dom db0" "set ?D \<inter> set (created log') = {}"
    using hd(2) Cons.prems(4) unfolding cr by auto
  have dom: "dom db = (dom db0 \<union> set (created log)) - set (deleted log)"
    using IH hd(1) D unfolding cr de by auto
  have lenD: "length ?D = card (set ?D)" and lenC: "length ?C = card (set ?C)"
    by (cases c; cases r; simp)+
  have "set ?C \<inter> dom db0 = {}"
    using Cons.prems(4) unfolding cr by auto
  then have "card (dom db0 \<union> set ?C) = card (dom db0) + length ?C"
    using Cons.prems(2) lenC by (simp add: card_Un_disjoint Int_commute)
  moreover have "set ?D \<subseteq> dom db0 \<union> set ?C"
    using D(1) by auto
  ultimately have step: "card (dom db1) + length ?D = card (dom db0) + length ?C"
    using hd(1) Cons.prems(2) lenD
    by (metis List.finite_set add.commute card_Diff_subset card_mono finite_UnI
        le_add_diff_inverse)
  from IH have fin: "finite (dom db)"
    and k: "card (dom db) + length (deleted log') = card (dom db1) + length (created log')"
    by blast+
  from k step have "card (dom db) + length (deleted log) = card (dom db0) + length (created log)"
    by (simp add: cr de)
  with dom fin show ?case by simp
qed

section \<open>Creating\<close>

text \<open>
  C2. When decoding the body fails, whether on malformed JSON or on a value of the wrong
  shape, the create handler answers 400 with exactly the body "Invalid JSON input" and
  the store is left as it was: the same keys, the same records, the same size.
\<close>

theorem createCat_decode_error:
  assumes "Decode body zero_Cat = Some (Some e, c)"
  shows "createCat body newCatID db =
           Some ((StatusBadRequest, String_payload ''Invalid JSON input''), db)"
  using assms by (simp add: createCat_def)

theorem createCat_decode_error_witness:
  "Decode ''{ invalid json }'' zero_Cat = Some (Some SyntaxError, zero_Cat) \<and>
   createCat ''{ invalid json }'' ''6ba7b810-9dad-41d1-80b4-00c04fd430c8'' catsDatabase =
     Some ((StatusBadRequest, String_payload ''Invalid JSON input''), catsDatabase) \<and>
   Decode ''{\"name\":5}'' zero_Cat = Some (Some UnmarshalTypeError, zero_Cat) \<and>
   createCat ''{\"name\":5}'' ''6ba7b810-9dad-41d1-80b4-00c04fd430c8'' catsDatabase =
     Some ((StatusBadRequest, String_payload ''Invalid JSON input''), catsDatabase)"
  using createCat_decode_error [OF Decode_invalid] createCat_decode_error [OF Decode_wrong_shape]
    Decode_invalid Decode_wrong_shape
  by simp

text \<open>
  C4. Whatever id the body supplies is discarded. The record the create handler stores
  has the generated identifier in its id field, the generated identifier is the key it
  is stored under, and the body of the 201 response is that identifier; when the body's
  id differs from it, neither the stored id nor the response is the body's id.
\<close>

theorem createCat_discards_client_id:
  assumes "Decode body zero_Cat = Some (None, P)"
  shows "\<exists>db'. createCat body newCatID db = Some ((StatusCreated, String_payload newCatID), db')
           \<and> db' newCatID = Some (P\<lparr>ID := newCatID\<rparr>)
           \<and> ID (the (db' newCatID)) = newCatID
           \<and> (ID P \<noteq> newCatID \<longrightarrow>
                ID (the (db' newCatID)) \<noteq> ID P \<and> String_payload newCatID \<noteq> String_payload (ID P))"
  using assms by (simp add: createCat_def)

theorem createCat_discards_client_id_witness:
  "Decode ''{\"name\":\"Tom\",\"id\":\"client-7\"}'' zero_Cat =
     Some (None, \<lparr>Name = ''Tom'', ID = ''client-7'', BirthDate = '''', Color = ''''\<rparr>) \<and>
   (\<exists>db'. createCat ''{\"name\":\"Tom\",\"id\":\"client-7\"}''
            ''6ba7b810-9dad-41d1-80b4-00c04fd430c8'' catsDatabase =
          Some ((StatusCreated, String_payload ''6ba7b810-9dad-41d1-80b4-00c04fd430c8''), db')
      \<and> db' ''6ba7b810-9dad-41d1-80b4-00c04fd430c8'' =
          Some \<lparr>Name = ''Tom'', ID = ''6ba7b810-9dad-41d1-80b4-00c04fd430c8'', BirthDate = '''',
                Color = ''''\<rparr>
      \<and> ID (the (db' ''6ba7b810-9dad-41d1-80b4-00c04fd430c8'')) \<noteq> ''client-7'')"
  using createCat_discards_client_id [OF Decode_client_id,
      of "''6ba7b810-9dad-41d1-80b4-00c04fd430c8''" catsDatabase] Decode_client_id
  by auto

text \<open>
  C1, as the code has it. For a body that decodes to the payload \<open>P\<close>, the create
  handler answers 201 with the identifier the generator produced and stores the payload
  under it; a get with that identifier then answers 200 with a record equal to \<open>P\<close> in
  name, birth date and colour, whose id is the identifier. The handler does not look the
  identifier up before storing: it is a new key only if the generator did not return a key
  of the store.
\<close>

theorem createCat_then_getCat:
  assumes "Decode body zero_Cat = Some (None, P)"
  shows "\<exists>db' c. createCat body newCatID db = Some ((StatusCreated, String_payload newCatID), db')
           \<and> db' = db(newCatID \<mapsto> c)
           \<and> getCat newCatID db' = (StatusOK, Cat_payload c)
           \<and> Name c = Name P \<and> BirthDate c = BirthDate P \<and> Color c = Color P
           \<and> ID c = newCatID"
  using assms by (simp add: createCat_def getCat_def)

theorem createCat_then_getCat_witness:
  "Decode ''{\"name\":\"Toto\",\"color\":\"Grey\"}'' zero_Cat =
     Some (None, \<lparr>Name = ''Toto'', ID = '''', BirthDate = '''', Color = ''Grey''\<rparr>) \<and>
   (\<exists>db' c. createCat ''{\"name\":\"Toto\",\"color\":\"Grey\"}''
              ''6ba7b810-9dad-41d1-80b4-00c04fd430c8'' catsDatabase =
            Some ((StatusCreated, String_payload ''6ba7b810-9dad-41d1-80b4-00c04fd430c8''), db')
      \<and> getCat ''6ba7b810-9dad-41d1-80b4-00c04fd430c8'' db' = (StatusOK, Cat_payload c)
      \<and> Name c = ''Toto'' \<and> BirthDate c = '''' \<and> Color c = ''Grey''
      \<and> ID c = ''6ba7b810-9dad-41d1-80b4-00c04fd430c8'')"
  using createCat_then_getCat [OF Decode_Toto,
      of "''6ba7b810-9dad-41d1-80b4-00c04fd430c8''" catsDatabase] Decode_Toto
  by auto

text \<open>
  C1 as stated fails when the generator returns an identifier that is a key already: the
  store below holds a record under the identifier, as a first create with it leaves it,
  and a second create answers 201 with that same identifier.
\<close>

theorem createCat_returns_present_id_counterexample:
  "''6ba7b810-9dad-41d1-80b4-00c04fd430c8'' \<in>
     dom (catsDatabase(''6ba7b810-9dad-41d1-80b4-00c04fd430c8'' \<mapsto>
       \<lparr>Name = ''Toto'', ID = ''6ba7b810-9dad-41d1-80b4-00c04fd430c8'', BirthDate = '''',
        Color = ''Grey''\<rparr>)) \<and>
   createCat ''{\"name\":\"Toto\",\"color\":\"Grey\"}'' ''6ba7b810-9dad-41d1-80b4-00c04fd430c8''
     catsDatabase =
     Some ((StatusCreated, String_payload ''6ba7b810-9dad-41d1-80b4-00c04fd430c8''),
       catsDatabase(''6ba7b810-9dad-41d1-80b4-00c04fd430c8'' \<mapsto>
         \<lparr>Name = ''Toto'', ID = ''6ba7b810-9dad-41d1-80b4-00c04fd430c8'', BirthDate = '''',
          Color = ''Grey''\<rparr>)) \<and>
   fst (the (createCat ''{\"name\":\"Tom\",\"id\":\"client-7\"}''
       ''6ba7b810-9dad-41d1-80b4-00c04fd430c8''
       (catsDatabase(''6ba7b810-9dad-41d1-80b4-00c04fd430c8'' \<mapsto>
         \<lparr>Name = ''Toto'', ID = ''6ba7b810-9dad-41d1-80b4-00c04fd430c8'', BirthDate = '''',
          Color = ''Grey''\<rparr>)))) =
     (StatusCreated, String_payload ''6ba7b810-9dad-41d1-80b4-00c04fd430c8'')"
  by (simp add: createCat_def Decode_Toto Decode_client_id)

text \<open>
  C5, as the code has it. The create handler stores the record under the identifier the
  generator returns and does not look it up first. When that identifier is not a key of
  the store, the create adds this one key, leaves every record of the store as it was,
  and the stored record carries the identifier in its id field.
\<close>

theorem createCat_fresh_key:
  assumes "createCat body newCatID db = Some ((StatusCreated, p), db')"
    and "newCatID \<notin> dom db"
  shows "dom db' = insert newCatID (dom db) \<and> (\<forall>k \<in> dom db. db' k = db k)
           \<and> (\<exists>c. db' newCatID = Some c \<and> ID c = newCatID)"
  using assms createCat_cases [of body newCatID db] by auto

theorem createCat_fresh_key_witness:
  "createCat ''{\"name\":\"Fluffy\",\"birthDate\":\"2023-01-15\",\"color\":\"White\"}''
     ''0b2f6f3e-1c2d-4e5f-9a6b-7c8d9e0f1a2b'' catsDatabase =
     Some ((StatusCreated, String_payload ''0b2f6f3e-1c2d-4e5f-9a6b-7c8d9e0f1a2b''),
       catsDatabase(''0b2f6f3e-1c2d-4e5f-9a6b-7c8d9e0f1a2b'' \<mapsto>
         \<lparr>Name = ''Fluffy'', ID = ''0b2f6f3e-1c2d-4e5f-9a6b-7c8d9e0f1a2b'',
          BirthDate = ''2023-01-15'', Color = ''White''\<rparr>)) \<and>
   ''0b2f6f3e-1c2d-4e5f-9a6b-7c8d9e0f1a2b'' \<notin> dom catsDatabase \<and>
   dom (catsDatabase(''0b2f6f3e-1c2d-4e5f-9a6b-7c8d9e0f1a2b'' \<mapsto>
         \<lparr>Name = ''Fluffy'', ID = ''0b2f6f3e-1c2d-4e5f-9a6b-7c8d9e0f1a2b'',
          BirthDate = ''2023-01-15'', Color = ''White''\<rparr>)) =
     {''0b2f6f3e-1c2d-4e5f-9a6b-7c8d9e0f1a2b'', ''id1''}"
proof -
  have c: "createCat ''{\"name\":\"Fluffy\",\"birthDate\":\"2023-01-15\",\"color\":\"White\"}''
     ''0b2f6f3e-1c2d-4e5f-9a6b-7c8d9e0f1a2b'' catsDatabase =
     Some ((StatusCreated, String_payload ''0b2f6f3e-1c2d-4e5f-9a6b-7c8d9e0f1a2b''),
       catsDatabase(''0b2f6f3e-1c2d-4e5f-9a6b-7c8d9e0f1a2b'' \<mapsto>
         \<lparr>Name = ''Fluffy'', ID = ''0b2f6f3e-1c2d-4e5f-9a6b-7c8d9e0f1a2b'',
          BirthDate = ''2023-01-15'', Color = ''White''\<rparr>))"
    by (simp add: createCat_def Decode_Fluffy)
  have f: "''0b2f6f3e-1c2d-4e5f-9a6b-7c8d9e0f1a2b'' \<notin> dom catsDatabase"
    by (simp add: dom_catsDatabase)
  from createCat_fresh_key [OF c f] c f show ?thesis
    by (simp add: dom_catsDatabase)
qed

text \<open>
  C5 as stated fails: nothing keeps the generator from returning a key of the store, and
  then the create overwrites. After two creates with the same identifier the store holds
  the second record only, under the keys it had after the first.
\<close>

theorem createCat_overwrites_counterexample:
  "createCat ''{\"name\":\"Fluffy\",\"birthDate\":\"2023-01-15\",\"color\":\"White\"}''
     ''0b2f6f3e-1c2d-4e5f-9a6b-7c8d9e0f1a2b''
     (catsDatabase(''0b2f6f3e-1c2d-4e5f-9a6b-7c8d9e0f1a2b'' \<mapsto>
        \<lparr>Name = ''Toto'', ID = ''0b2f6f3e-1c2d-4e5f-9a6b-7c8d9e0f1a2b'', BirthDate = '''',
         Color = ''Grey''\<rparr>)) =
     Some ((StatusCreated, String_payload ''0b2f6f3e-1c2d-4e5f-9a6b-7c8d9e0f1a2b''),
       catsDatabase(''0b2f6f3e-1c2d-4e5f-9a6b-7c8d9e0f1a2b'' \<mapsto>
         \<lparr>Name = ''Fluffy'', ID = ''0b2f6f3e-1c2d-4e5f-9a6b-7c8d9e0f1a2b'',
          BirthDate = ''2023-01-15'', Color = ''White''\<rparr>)) \<and>
   createCat ''{\"name\":\"Toto\",\"color\":\"Grey\"}'' ''0b2f6f3e-1c2d-4e5f-9a6b-7c8d9e0f1a2b''
     catsDatabase =
     Some ((StatusCreated, String_payload ''0b2f6f3e-1c2d-4e5f-9a6b-7c8d9e0f1a2b''),
       catsDatabase(''0b2f6f3e-1c2d-4e5f-9a6b-7c8d9e0f1a2b'' \<mapsto>
        \<lparr>Name = ''Toto'', ID = ''0b2f6f3e-1c2d-4e5f-9a6b-7c8d9e0f1a2b'', BirthDate = '''',
         Color = ''Grey''\<rparr>)) \<and>
   ''0b2f6f3e-1c2d-4e5f-9a6b-7c8d9e0f1a2b'' \<in>
     dom (catsDatabase(''0b2f6f3e-1c2d-4e5f-9a6b-7c8d9e0f1a2b'' \<mapsto>
        \<lparr>Name = ''Toto'', ID = ''0b2f6f3e-1c2d-4e5f-9a6b-7c8d9e0f1a2b'', BirthDate = '''',
         Color = ''Grey''\<rparr>))"
  by (simp add: createCat_def Decode_Toto Decode_Fluffy)

section \<open>Deleting\<close>

text \<open>
  C3. When the id is a key of the store, the delete handler answers 204 with a nil body and
  the key is gone afterwards; when it is not, the handler answers 404 with
  "Cat not found" and the store is the same. Hence a second delete of a key that was
  present answers 404, and both deletes of an absent key answer 404.
\<close>

theorem deleteCat_found_or_not:
  "(catID \<in> dom db \<longrightarrow>
      fst (deleteCat catID db) = (StatusNoContent, Nil_payload) \<and>
      catID \<notin> dom (snd (deleteCat catID db)) \<and>
      fst (deleteCat catID (snd (deleteCat catID db))) =
        (StatusNotFound, String_payload ''Cat not found'')) \<and>
   (catID \<notin> dom db \<longrightarrow>
      deleteCat catID db = ((StatusNotFound, String_payload ''Cat not found''), db) \<and>
      deleteCat catID (snd (deleteCat catID db)) =
        ((StatusNotFound, String_payload ''Cat not found''), db))"
  by (auto simp: deleteCat_def split: option.splits)

theorem deleteCat_found_or_not_witness:
  "''id1'' \<in> dom catsDatabase \<and>
   fst (deleteCat ''id1'' catsDatabase) = (StatusNoContent, Nil_payload) \<and>
   ''id1'' \<notin> dom (snd (deleteCat ''id1'' catsDatabase)) \<and>
   fst (deleteCat ''id1'' (snd (deleteCat ''id1'' catsDatabase))) =
     (StatusNotFound, String_payload ''Cat not found'') \<and>
   ''id2'' \<notin> dom catsDatabase \<and>
   deleteCat ''id2'' catsDatabase =
     ((StatusNotFound, String_payload ''Cat not found''), catsDatabase) \<and>
   deleteCat ''id2'' (snd (deleteCat ''id2'' catsDatabase)) =
     ((StatusNotFound, String_payload ''Cat not found''), catsDatabase)"
  using deleteCat_found_or_not [of "''id1''" catsDatabase]
    deleteCat_found_or_not [of "''id2''" catsDatabase]
  by (simp add: dom_catsDatabase)

section \<open>The seed record\<close>

text \<open>
  C9. When the process starts the store holds one record, under the key "id1", with name
  "Toto", colour "Grey" and birth date "2023-04-16". The first call of the list handler
  therefore answers 200 with the one identifier "id1", and the get handler finds "id1".
\<close>

theorem catsDatabase_seed:
  "dom catsDatabase = {''id1''} \<and>
   (\<exists>cat. catsDatabase ''id1'' = Some cat \<and> Name cat = ''Toto'' \<and> Color cat = ''Grey'' \<and>
      BirthDate cat = ''2023-04-16'' \<and> getCat ''id1'' catsDatabase = (StatusOK, Cat_payload cat)) \<and>
   (\<forall>order. range_order catsDatabase order \<longrightarrow>
      listCats order catsDatabase = (StatusOK, Strings_payload [''id1'']))"
proof -
  have one: "order = [''id1'']" if "range_order catsDatabase order" for order
  proof -
    from that have d: "distinct order" and s: "set order = {''id1''}"
      by (simp_all add: range_order_def dom_catsDatabase)
    from d s have "length order = 1"
      by (metis One_nat_def card.empty card_insert_if distinct_card empty_iff finite.emptyI)
    with s show ?thesis
      by (cases order) auto
  qed
  show ?thesis
    by (auto simp: dom_catsDatabase getCat_def listCats_def listMapKeys_eq one)
      (simp add: catsDatabase_def)
qed

theorem catsDatabase_seed_witness:
  "range_order catsDatabase [''id1''] \<and>
   listCats [''id1''] catsDatabase = (StatusOK, Strings_payload [''id1''])"
  using catsDatabase_seed by (simp add: range_order_def dom_catsDatabase)

section \<open>Listing and looking up after a sequence of requests\<close>

text \<open>
  C6, as the code has it. The store starts with the seed record. After any sequence of
  calls from the start of the process in which the generated identifiers differ from
  one another and from "id1", with \<open>N\<close> successful creates and \<open>M\<close> successful deletes, the
  list handler answers 200 with \<open>1 + N - M\<close> identifiers: those that are "id1" or were
  returned by a create, and have not been deleted.
\<close>

theorem listCats_after_run:
  assumes "run calls catsDatabase = Some (log, db)"
    and "range_order db order"
    and "distinct (created log)" and "''id1'' \<notin> set (created log)"
  shows "\<exists>ids. listCats order db = (StatusOK, Strings_payload ids)
           \<and> length ids + length (deleted log) = 1 + length (created log)
           \<and> set ids = ({''id1''} \<union> set (created log)) - set (deleted log)"
proof -
  have "dom db = (dom catsDatabase \<union> set (created log)) - set (deleted log)
     \<and> finite (dom db)
     \<and> card (dom db) + length (deleted log) = card (dom catsDatabase) + length (created log)"
    using assms(1,3,4) by (intro run_dom) (simp_all add: dom_catsDatabase)
  then have d: "dom db = (dom catsDatabase \<union> set (created log)) - set (deleted log)"
    and k: "card (dom db) + length (deleted log) = card (dom catsDatabase) + length (created log)"
    by blast+
  have len: "length order = card (dom db)" and set: "set order = dom db"
    using assms(2) by (simp_all add: range_order_length) (simp add: range_order_def)
  from k len have "length order + length (deleted log) = 1 + length (created log)"
    by (simp add: dom_catsDatabase)
  moreover from d set have "set order = ({''id1''} \<union> set (created log)) - set (deleted log)"
    by (simp add: dom_catsDatabase)
  ultimately show ?thesis
    by (simp add: listCats_def listMapKeys_eq)
qed

lemma run_create_delete:
  "run [Create_call ''{\"name\":\"Toto\",\"color\":\"Grey\"}'' ''6ba7b810-9dad-41d1-80b4-00c04fd430c8'',
        Create_call ''{ invalid json }'' ''0b2f6f3e-1c2d-4e5f-9a6b-7c8d9e0f1a2b'',
        Delete_call ''id1'', Delete_call ''id1''] catsDatabase =
   Some ([(Create_call ''{\"name\":\"Toto\",\"color\":\"Grey\"}''
             ''6ba7b810-9dad-41d1-80b4-00c04fd430c8'',
           (StatusCreated, String_payload ''6ba7b810-9dad-41d1-80b4-00c04fd430c8'')),
          (Create_call ''{ invalid json }'' ''0b2f6f3e-1c2d-4e5f-9a6b-7c8d9e0f1a2b'',
           (StatusBadRequest, String_payload ''Invalid JSON input'')),
          (Delete_call ''id1'', (StatusNoContent, Nil_payload)),
          (Delete_call ''id1'', (StatusNotFound, String_payload ''Cat not found''))],
         (catsDatabase(''6ba7b810-9dad-41d1-80b4-00c04fd430c8'' \<mapsto>
            \<lparr>Name = ''Toto'', ID = ''6ba7b810-9dad-41d1-80b4-00c04fd430c8'', BirthDate = '''',
             Color = ''Grey''\<rparr>))(''id1'' := None))"
  by (simp add: createCat_def Decode_Toto Decode_invalid deleteCat_def catsDatabase_def)

theorem listCats_after_run_witness:
  "range_order
     ((catsDatabase(''6ba7b810-9dad-41d1-80b4-00c04fd430c8'' \<mapsto>
        \<lparr>Name = ''Toto'', ID = ''6ba7b810-9dad-41d1-80b4-00c04fd430c8'', BirthDate = '''',
         Color = ''Grey''\<rparr>))(''id1'' := None))
     [''6ba7b810-9dad-41d1-80b4-00c04fd430c8''] \<and>
   (\<exists>ids. listCats [''6ba7b810-9dad-41d1-80b4-00c04fd430c8'']
       ((catsDatabase(''6ba7b810-9dad-41d1-80b4-00c04fd430c8'' \<mapsto>
          \<lparr>Name = ''Toto'', ID = ''6ba7b810-9dad-41d1-80b4-00c04fd430c8'', BirthDate = '''',
           Color = ''Grey''\<rparr>))(''id1'' := None)) = (StatusOK, Strings_payload ids)
      \<and> length ids + 1 = 1 + 1 \<and> set ids = {''6ba7b810-9dad-41d1-80b4-00c04fd430c8''})"
proof -
  have ro: "range_order
     ((catsDatabase(''6ba7b810-9dad-41d1-80b4-00c04fd430c8'' \<mapsto>
        \<lparr>Name = ''Toto'', ID = ''6ba7b810-9dad-41d1-80b4-00c04fd430c8'', BirthDate = '''',
         Color = ''Grey''\<rparr>))(''id1'' := None))
     [''6ba7b810-9dad-41d1-80b4-00c04fd430c8'']"
    by (auto simp: range_order_def catsDatabase_def split: if_splits)
  from listCats_after_run [OF run_create_delete ro] ro show ?thesis
    by auto
qed

text \<open>
  C6 as stated fails before any create: the list handler of the fresh process answers
  with one identifier, the seed's, while no create and no delete has happened.
\<close>

theorem listCats_fresh_process_counterexample:
  "run [] catsDatabase = Some ([], catsDatabase) \<and>
   range_order catsDatabase [''id1''] \<and>
   listCats [''id1''] catsDatabase = (StatusOK, Strings_payload [''id1'']) \<and>
   length [''id1''] \<noteq> length (created []) - length (deleted []) \<and>
   ''id1'' \<notin> set (created [])"
  by (simp add: range_order_def dom_catsDatabase listCats_def listMapKeys_eq)

text \<open>
  C7, as the code has it. After any sequence of calls from the start of the process, an
  id that is not "id1" and was never returned by a create is not in the store: the get
  handler and the delete handler both answer 404 with "Cat not found", and the delete
  leaves the store as it is.
\<close>

theorem never_created_not_found:
  assumes "run calls catsDatabase = Some (log, db)"
    and "catID \<noteq> ''id1''" and "catID \<notin> set (created log)"
  shows "getCat catID db = (StatusNotFound, String_payload ''Cat not found'') \<and>
         deleteCat catID db = ((StatusNotFound, String_payload ''Cat not found''), db)"
proof -
  from run_dom_subset [OF assms(1)] assms(2,3) have "db catID = None"
    by (auto simp: dom_catsDatabase)
  then show ?thesis
    by (simp add: getCat_def deleteCat_def)
qed

theorem never_created_not_found_witness:
  "''id2'' \<noteq> ''id1'' \<and> ''id2'' \<notin> set [''6ba7b810-9dad-41d1-80b4-00c04fd430c8''] \<and>
   getCat ''id2'' ((catsDatabase(''6ba7b810-9dad-41d1-80b4-00c04fd430c8'' \<mapsto>
        \<lparr>Name = ''Toto'', ID = ''6ba7b810-9dad-41d1-80b4-00c04fd430c8'', BirthDate = '''',
         Color = ''Grey''\<rparr>))(''id1'' := None)) =
     (StatusNotFound, String_payload ''Cat not found'') \<and>
   deleteCat ''id2'' ((catsDatabase(''6ba7b810-9dad-41d1-80b4-00c04fd430c8'' \<mapsto>
        \<lparr>Name = ''Toto'', ID = ''6ba7b810-9dad-41d1-80b4-00c04fd430c8'', BirthDate = '''',
         Color = ''Grey''\<rparr>))(''id1'' := None)) =
     ((StatusNotFound, String_payload ''Cat not found''),
      (catsDatabase(''6ba7b810-9dad-41d1-80b4-00c04fd430c8'' \<mapsto>
        \<lparr>Name = ''Toto'', ID = ''6ba7b810-9dad-41d1-80b4-00c04fd430c8'', BirthDate = '''',
         Color = ''Grey''\<rparr>))(''id1'' := None))"
  using never_created_not_found [OF run_create_delete, of "''id2''"]
  by simp

text \<open>
  C7 as stated fails for the seed: "id1" was never returned by a create, yet on the fresh
  process the get handler finds it and the delete handler removes it.
\<close>

theorem seed_found_counterexample:
  "run [] catsDatabase = Some ([], catsDatabase) \<and> ''id1'' \<notin> set (created []) \<and>
   getCat ''id1'' catsDatabase =
     (StatusOK,
      Cat_payload \<lparr>Name = ''Toto'', ID = '''', BirthDate = ''2023-04-16'', Color = ''Grey''\<rparr>) \<and>
   fst (deleteCat ''id1'' catsDatabase) = (StatusNoContent, Nil_payload)"
  by (simp add: getCat_def deleteCat_def catsDatabase_def)

section \<open>Bytes after the first value\<close>

lemmas step_defs = scan_step_def stateBeginValue_def stateBeginStringOrEmpty_def
  stateBeginString_def stateBeginValueOrEmpty_def stateInString_def stateInStringEsc_def
  stateInStringEscU_def stateEndValue_def stateEndTop_def pushParseState_def popParseState_def
  state0_def state1_def stateNeg_def stateDot_def stateDot0_def
  stateE_def stateESign_def stateE0_def stateLiteral_def scan_error_def

lemma started_step: "started s \<Longrightarrow> started (fst (scan_step s c))"
  unfolding started_def
  by (cases "step s"; cases "parseState s"; (cases "hd (parseState s)")?)
     (auto simp: step_defs Let_def split: if_splits list.splits parse.splits)


lemma started_end:
  "started s \<Longrightarrow> snd (scan_step s CHR '' '') = scanEnd \<Longrightarrow> snd (scan_step s c) = scanEnd"
  unfolding started_def
  by (cases "step s"; cases "parseState s"; (cases "hd (parseState s)")?)
     (auto simp: step_defs isSpace_def Let_def between_def byte_def quote_def backslash_def
        isHex_def split: if_splits list.splits parse.splits)

lemma readValue_loop_le: "readValue_loop buf s cs n = Inr m \<Longrightarrow> m \<le> n + length cs"
proof (induction cs arbitrary: s n)
  case Nil
  then show ?case by (simp split: if_splits)
next
  case (Cons c cs)
  then show ?case
    by (fastforce simp: Let_def split: if_splits)
qed

lemma readValue_loop_append:
  "started s \<Longrightarrow> readValue_loop buf s cs n = Inr m \<Longrightarrow>
   readValue_loop buf' s (cs @ t) n = Inr m"
proof (induction cs arbitrary: s n)
  case Nil
  show ?case
  proof (cases t)
    case Nil
    with Nil.prems show ?thesis by (simp split: if_splits)
  next
    case (Cons c' t')
    from Nil.prems have "snd (scan_step s CHR '' '') = scanEnd"
      by (simp split: if_splits)
    with Nil.prems(1) have "snd (scan_step s c') = scanEnd"
      by (rule started_end)
    with Nil.prems Cons show ?thesis
      by (simp add: Let_def split: if_splits)
  qed
next
  case (Cons c cs)
  from Cons.prems(1) have st: "started (fst (scan_step s c))"
    by (rule started_step)
  from Cons.prems(2) Cons.IH [OF st] show ?case
    by (auto simp: Let_def split: if_splits)
qed


lemma numeric_not:
  assumes "numeric c"
  shows "\<not> isSpace c" "c \<noteq> CHR ''{''" "c \<noteq> CHR ''[''" "c \<noteq> quote" "c \<noteq> CHR ''t''"
    "c \<noteq> CHR ''f''" "c \<noteq> CHR ''n''"
  using assms by (auto simp: numeric_def between_def byte_def isSpace_def quote_def)

lemma numeric_cases:
  assumes "numeric c"
  shows "c = CHR ''-'' \<or> c = CHR ''0'' \<or> between CHR ''1'' CHR ''9'' c"
proof (cases "byte c = 48")
  case True
  then have "(of_char c :: nat) = of_char CHR ''0''" by (simp add: byte_def)
  then have "c = CHR ''0''" by (simp only: of_char_eq_iff)
  then show ?thesis by simp
next
  case False
  with assms show ?thesis
    by (auto simp: numeric_def between_def byte_def)
qed

lemma numeric_begin: "numeric c \<Longrightarrow> snd (scan_step reset c) = scanBeginLiteral"
  using numeric_cases [of c] numeric_not [of c]
  by (auto simp: scan_step_def reset_def stateBeginValue_def)

lemma rescanLiteral_numeric:
  assumes "numeric (lastRead d)"
  shows "\<exists>lit d'. rescanLiteral d = Some (lastRead d # lit, d') \<and> savedError d' = savedError d"
  using assms numeric_not(4) [OF assms]
  by (auto simp: rescanLiteral_def Let_def numeric_def split: list.splits)

lemma reset_space: "isSpace c \<Longrightarrow> scan_step reset c = (reset, scanSkipSpace)"
  by (simp add: scan_step_def reset_def stateBeginValue_def)

lemma reset_started:
  assumes "\<not> isSpace c" and "\<not> numeric c"
  shows "started (fst (scan_step reset c))"
proof -
  from assms(2) have "c \<noteq> CHR ''-''" "c \<noteq> CHR ''0''" "\<not> between CHR ''1'' CHR ''9'' c"
    by (auto simp: numeric_def between_def byte_def)
  with assms(1) show ?thesis
    by (simp add: started_def scan_step_def reset_def stateBeginValue_def pushParseState_def
        scan_error_def Let_def)
qed

lemma readValue_loop_reset_append:
  assumes "readValue_loop buf reset cs n = Inr m"
    and "dropWhile isSpace cs \<noteq> [] \<Longrightarrow> \<not> numeric (hd (dropWhile isSpace cs))"
  shows "readValue_loop buf' reset (cs @ t) n = Inr m"
  using assms
proof (induction cs arbitrary: n)
  case Nil
  then show ?case
    by (simp add: reset_space isSpace_def split: if_splits)
next
  case (Cons c cs)
  show ?case
  proof (cases "isSpace c")
    case True
    with Cons show ?thesis
      by (simp add: reset_space)
  next
    case False
    with Cons.prems(2) have "\<not> numeric c" by simp
    with False have st: "started (fst (scan_step reset c))"
      by (rule reset_started)
    from Cons.prems(1) readValue_loop_append [OF st] show ?thesis
      by (auto simp: Let_def split: if_splits)
  qed
qed

lemma scanWhile_loop_reset:
  "scan d = reset \<Longrightarrow>
   scanWhile_loop scanSkipSpace d cs =
     (case dropWhile isSpace cs of
        [] \<Rightarrow> at_eof d
      | c # r \<Rightarrow> scanned c r (scan_step reset c) d)"
proof (induction cs arbitrary: d)
  case Nil
  then show ?case by simp
next
  case (Cons c cs)
  show ?case
  proof (cases "isSpace c")
    case True
    have eq: "d\<lparr>scan := reset\<rparr> = d" using Cons.prems by simp
    have "scanWhile_loop scanSkipSpace d (c # cs)
        = scanWhile_loop scanSkipSpace (d\<lparr>scan := reset\<rparr>) cs"
      using True Cons.prems by (simp add: reset_space)
    also have "\<dots> = scanWhile_loop scanSkipSpace d cs"
      by (simp only: eq)
    also note Cons.IH [OF Cons.prems]
    finally show ?thesis using True by simp
  next
    case False
    then have "snd (scan_step reset c) \<noteq> scanSkipSpace"
      by (auto simp: reset_def step_defs Let_def)
    with False Cons.prems show ?thesis by simp
  qed
qed

lemma scanWhile_init:
  "scanWhile scanSkipSpace (init data v) =
     (case dropWhile isSpace data of
        [] \<Rightarrow> at_eof (init data v)
      | c # r \<Rightarrow> scanned c r (scan_step reset c) (init data v))"
proof -
  have "scan (init data v) = reset" "unread (init data v) = data"
    by (simp_all add: init_def)
  then show ?thesis
    by (simp only: scanWhile_def scanWhile_loop_reset)
qed

lemma unmarshal_ok_leading:
  assumes "unmarshal data v = Some (None, P)"
  shows "dropWhile isSpace data \<noteq> [] \<and> \<not> numeric (hd (dropWhile isSpace data))"
proof (cases "dropWhile isSpace data")
  case Nil
  then have "scanWhile scanSkipSpace (init data v) = at_eof (init data v)"
    by (simp only: scanWhile_init list.case)
  moreover have "snd (scan_eof reset) = scanError"
    by (simp add: scan_eof_def reset_def step_defs isSpace_def Let_def)
  ultimately have "value_struct (scanWhile scanSkipSpace (init data v)) = None"
    by (simp add: value_struct_def init_def)
  with assms show ?thesis by (simp add: unmarshal_def)
next
  case (Cons c r)
  let ?d = "scanned c r (scan_step reset c) (init data v)"
  have d: "scanWhile scanSkipSpace (init data v) = ?d"
    using Cons by (simp only: scanWhile_init list.case)
  have "\<not> numeric c"
  proof
    assume n: "numeric c"
    then have op: "snd (scan_step reset c) = scanBeginLiteral"
      by (rule numeric_begin)
    from n have c: "c \<noteq> quote" "c \<noteq> CHR ''t''" "c \<noteq> CHR ''f''" "c \<noteq> CHR ''n''"
      by (simp_all add: numeric_not)
    have "numeric (lastRead ?d)" using n by simp
    from rescanLiteral_numeric [OF this]
    obtain item d' where r: "rescanLiteral ?d = Some (item, d')" and i: "hd item = c"
      "item \<noteq> []" and e: "savedError d' = None"
      by (auto simp: init_def)
    from i c n have "literalStore_struct item d' = Some (saveError UnmarshalTypeError d')"
      by (cases item) (auto simp: literalStore_struct_def literal_number_def numeric_def)
    with r op d have "value_struct (scanWhile scanSkipSpace (init data v))
        = Some (saveError UnmarshalTypeError d')"
      by (simp add: value_struct_def)
    with assms e show False
      by (simp add: unmarshal_def saveError_def)
  qed
  with Cons show ?thesis by simp
qed

lemma dropWhile_take:
  "dropWhile P (take m xs) \<noteq> [] \<Longrightarrow>
   dropWhile P xs \<noteq> [] \<and> hd (dropWhile P xs) = hd (dropWhile P (take m xs))"
proof (induction xs arbitrary: m)
  case Nil
  then show ?case by simp
next
  case (Cons x xs)
  then show ?case by (cases m) (auto split: if_splits)
qed

lemma Decode_append:
  assumes "Decode body v = Some (None, P)"
  shows "Decode (body @ trailing) v = Some (None, P)"
proof -
  from assms obtain m where m: "readValue body = Inr m"
    and u: "unmarshal (take m body) v = Some (None, P)"
    by (auto simp: Decode_def split: sum.splits)
  from unmarshal_ok_leading [OF u] dropWhile_take [of isSpace m body]
  have lead: "\<not> numeric (hd (dropWhile isSpace body))"
    by simp
  from m have "readValue (body @ trailing) = Inr m"
    unfolding readValue_def by (rule readValue_loop_reset_append) (rule lead)
  moreover from m have "m \<le> length body"
    unfolding readValue_def by (auto dest: readValue_loop_le)
  ultimately show ?thesis
    using u by (simp add: Decode_def)
qed

text \<open>
  C10. The create handler decodes the first JSON value of the body only. Whenever a body
  decodes into the record shape, the same body followed by any bytes at all, valid JSON
  or not, gets the answer 201 and the same record is stored. The answer is 400 with
  "Invalid JSON input" exactly when decoding returns an error, as it does for the empty
  body.
\<close>

theorem createCat_first_value_only:
  "(Decode body zero_Cat = Some (None, P) \<longrightarrow>
      createCat (body @ trailing) newCatID db =
        Some ((StatusCreated, String_payload newCatID), db(newCatID \<mapsto> P\<lparr>ID := newCatID\<rparr>))) \<and>
   ((\<exists>db'. createCat body newCatID db =
        Some ((StatusBadRequest, String_payload ''Invalid JSON input''), db')) \<longleftrightarrow>
    (\<exists>e c. Decode body zero_Cat = Some (Some e, c))) \<and>
   createCat [] newCatID db =
     Some ((StatusBadRequest, String_payload ''Invalid JSON input''), db)"
proof (intro conjI impI)
  assume "Decode body zero_Cat = Some (None, P)"
  then have "Decode (body @ trailing) zero_Cat = Some (None, P)"
    by (rule Decode_append)
  then show "createCat (body @ trailing) newCatID db =
      Some ((StatusCreated, String_payload newCatID), db(newCatID \<mapsto> P\<lparr>ID := newCatID\<rparr>))"
    by (simp add: createCat_def)
next
  show "(\<exists>db'. createCat body newCatID db =
        Some ((StatusBadRequest, String_payload ''Invalid JSON input''), db')) \<longleftrightarrow>
    (\<exists>e c. Decode body zero_Cat = Some (Some e, c))"
    using createCat_cases [of body newCatID db] by auto
next
  show "createCat [] newCatID db =
      Some ((StatusBadRequest, String_payload ''Invalid JSON input''), db)"
    by (simp add: createCat_def Decode_empty)
qed

theorem createCat_first_value_only_witness:
  "Decode ''{\"name\":\"Toto\",\"color\":\"Grey\"}'' zero_Cat =
     Some (None, \<lparr>Name = ''Toto'', ID = '''', BirthDate = '''', Color = ''Grey''\<rparr>) \<and>
   createCat ''{\"name\":\"Toto\",\"color\":\"Grey\"} }{ not json''
       ''6ba7b810-9dad-41d1-80b4-00c04fd430c8'' catsDatabase =
     Some ((StatusCreated, String_payload ''6ba7b810-9dad-41d1-80b4-00c04fd430c8''),
       catsDatabase(''6ba7b810-9dad-41d1-80b4-00c04fd430c8'' \<mapsto>
         \<lparr>Name = ''Toto'', ID = ''6ba7b810-9dad-41d1-80b4-00c04fd430c8'', BirthDate = '''',
          Color = ''Grey''\<rparr>)) \<and>
   (\<exists>e c. Decode ''{ invalid json }'' zero_Cat = Some (Some e, c)) \<and>
   (\<exists>db'. createCat ''{ invalid json }'' ''6ba7b810-9dad-41d1-80b4-00c04fd430c8'' catsDatabase =
      Some ((StatusBadRequest, String_payload ''Invalid JSON input''), db'))"
  using createCat_first_value_only [of "''{\"name\":\"Toto\",\"color\":\"Grey\"}''"
      "\<lparr>Name = ''Toto'', ID = '''', BirthDate = '''', Color = ''Grey''\<rparr>" "'' }{ not json''"
      "''6ba7b810-9dad-41d1-80b4-00c04fd430c8''" catsDatabase]
    createCat_first_value_only [of "''{ invalid json }''" zero_Cat "[]"
      "''6ba7b810-9dad-41d1-80b4-00c04fd430c8''" catsDatabase]
    Decode_Toto Decode_invalid
  by simp

end
